theory Spec2Isabelle
  imports Complex_Main "HOL-Library.Sublist"
begin

section \<open>JavaScript values read by the Remote Analysis Client\<close>

text \<open>
  \<open>response.json()\<close> yields an arbitrary JSON value: the TypeScript annotations
  \<open>AnalysisResult\<close> and \<open>ApiError\<close> are erased at run time. The number type \<open>'n\<close>
  is left open: the client never computes with a number, it only asks whether one is falsy
  and how it prints, and both questions are answered by the host (\<open>numeric\<close>).
  \<open>JObj\<close> lists the members in the order of the text; a later duplicate wins, as in
  \<open>JSON.parse\<close>. \<open>undefined\<close> is \<open>None\<close> of \<open>'n json option\<close>.
\<close>

datatype 'n json =
    JNull
  | JBool bool
  | JNum 'n
  | JStr string
  | JArr "'n json list"
  | JObj "(string \<times> 'n json) list"

record 'n numeric =
  num_falsy :: "'n \<Rightarrow> bool"
  num_to_string :: "'n \<Rightarrow> string"

text \<open>An exception value: every one met here is an instance of \<open>Error\<close>, with a name and a message.\<close>

datatype js_error = JsError (err_name: string) (err_message: string)

fun truthy :: "'n numeric \<Rightarrow> 'n json \<Rightarrow> bool" where
  "truthy N JNull = False"
| "truthy N (JBool b) = b"
| "truthy N (JNum n) = (\<not> num_falsy N n)"
| "truthy N (JStr s) = (s \<noteq> [])"
| "truthy N (JArr xs) = True"
| "truthy N (JObj kvs) = True"

fun join_comma :: "string list \<Rightarrow> string" where
  "join_comma [] = []"
| "join_comma [x] = x"
| "join_comma (x # y # ys) = x @ '','' @ join_comma (y # ys)"

text \<open>
  The string conversion that \<open>new Error(x)\<close> applies to its argument. An array prints its
  elements joined by commas, a \<open>null\<close> element as the empty string; an object prints as
  \<open>[object Object]\<close>.
\<close>

fun ToString :: "'n numeric \<Rightarrow> 'n json \<Rightarrow> string" where
  "ToString N JNull = ''null''"
| "ToString N (JBool b) = (if b then ''true'' else ''false'')"
| "ToString N (JNum n) = num_to_string N n"
| "ToString N (JStr s) = s"
| "ToString N (JArr xs) = join_comma (map (\<lambda>x. if x = JNull then [] else ToString N x) xs)"
| "ToString N (JObj kvs) = ''[object Object]''"

text \<open>
  Reading the property \<open>k\<close> of a parsed JSON value. Reading from \<open>null\<close> throws a
  \<open>TypeError\<close> (the message is the one V8 prints). Only own members of an object are
  looked up: the client reads \<open>detail\<close> and \<open>message\<close>, which no built-in prototype
  defines.
\<close>

definition read_prop :: "'n json \<Rightarrow> string \<Rightarrow> js_error + 'n json option" where
  "read_prop v k =
     (case v of
        JNull \<Rightarrow> Inl (JsError ''TypeError''
          (''Cannot read properties of null (reading '' @ [CHR 0x27] @ k @ [CHR 0x27] @ '')''))
      | JObj kvs \<Rightarrow> Inr (map_of (rev kvs) k)
      | _ \<Rightarrow> Inr None)"

subsection \<open>Decimal digits of a status code\<close>

definition digit_char :: "nat \<Rightarrow> char" where
  "digit_char n = ''0123456789'' ! (n mod 10)"

fun show_nat :: "nat \<Rightarrow> string" where
  "show_nat n = (if n < 10 then [digit_char n] else show_nat (n div 10) @ [digit_char (n mod 10)])"

declare show_nat.simps [simp del]

section \<open>plantAnalysisApi.ts\<close>

definition API_BASE_URL :: string where
  "API_BASE_URL = ''http://localhost:8000''"

record File =
  file_name :: string
  file_type :: string
  file_size :: nat

text \<open>
  What \<open>fetch\<close> is given: the address, and of the init object the method, the
  \<open>Accept\<close> header, the multipart body with its one part \<open>file\<close>, and the
  \<open>AbortSignal\<close> when one is passed (signals are told apart by a number).
\<close>

record request =
  url :: string
  http_method :: string
  accept :: string
  form_file :: File
  signal :: "nat option"

record 'n response =
  status :: nat
  body_json :: "js_error + 'n json"

datatype 'n fetch_result = FetchRejects js_error | FetchResponds "'n response"

text \<open>How the promise returned by an async function settles.\<close>

datatype 'n settled = Resolved "'n json" | Rejected js_error

definition ok :: "'n response \<Rightarrow> bool" where
  "ok r = (200 \<le> status r \<and> status r \<le> 299)"

definition analyze_request :: "File \<Rightarrow> request" where
  "analyze_request f =
     \<lparr>url = API_BASE_URL @ ''/analyze'', http_method = ''POST'',
      accept = ''application/json'', form_file = f, signal = None\<rparr>"

text \<open>
  Cancellation as the platform offers it. A caller cancels by aborting signals. When the
  request carries a signal, \<open>fetch\<close> rejects with an \<open>AbortError\<close> if the signal is
  aborted before the response arrives (\<open>early\<close>), and \<open>response.json()\<close> rejects with it
  if the signal is aborted while the body is read (\<open>late\<close>). A request without a signal
  is answered as the network answers it.
\<close>

definition abort_error :: js_error where
  "abort_error = JsError ''AbortError'' ''The user aborted a request.''"

definition fetch_with_abort ::
  "nat set \<Rightarrow> nat set \<Rightarrow> (request \<Rightarrow> 'n fetch_result) \<Rightarrow> request \<Rightarrow> 'n fetch_result" where
  "fetch_with_abort early late net req =
     (case signal req of
        None \<Rightarrow> net req
      | Some s \<Rightarrow>
          if s \<in> early then FetchRejects abort_error
          else (case net req of
                  FetchRejects e \<Rightarrow> FetchRejects e
                | FetchResponds r \<Rightarrow>
                    if s \<in> late then FetchResponds (r\<lparr>body_json := Inl abort_error\<rparr>)
                    else FetchResponds r))"

text \<open>
  The value thrown in the branch \<open>!response.ok\<close>:
  \<^verbatim>\<open>
  const errorData: ApiError = await response.json().catch(() => ({}));
  throw new Error(errorData.detail || errorData.message ||
                  `HTTP error! status: ${response.status}`);
  \<close>
\<close>

definition not_ok_error :: "'n numeric \<Rightarrow> 'n response \<Rightarrow> js_error" where
  "not_ok_error N r =
     (let errorData = (case body_json r of Inl _ \<Rightarrow> JObj [] | Inr v \<Rightarrow> v);
          fallback = JsError ''Error'' (''HTTP error! status: '' @ show_nat (status r));
          from_message =
            (case read_prop errorData ''message'' of
               Inl e \<Rightarrow> e
             | Inr None \<Rightarrow> fallback
             | Inr (Some m) \<Rightarrow> if truthy N m then JsError ''Error'' (ToString N m) else fallback)
      in case read_prop errorData ''detail'' of
           Inl e \<Rightarrow> e
         | Inr None \<Rightarrow> from_message
         | Inr (Some d) \<Rightarrow> if truthy N d then JsError ''Error'' (ToString N d) else from_message)"

text \<open>
  \<open>analyzePlantImage\<close>: the environment \<open>net\<close> answers the request; the function returns
  how its promise settles and the requests it issued. The \<open>catch\<close> block logs and rethrows
  (\<open>throw error\<close>), so every exception raised inside \<open>try\<close> is the rejection of the call.
  The console output is not modelled.
\<close>

definition analyzePlantImage ::
  "'n numeric \<Rightarrow> (request \<Rightarrow> 'n fetch_result) \<Rightarrow> File \<Rightarrow> 'n settled \<times> request list" where
  "analyzePlantImage N net f =
     (let req = analyze_request f in
      ((case net req of
          FetchRejects e \<Rightarrow> Rejected e
        | FetchResponds r \<Rightarrow>
            if \<not> ok r then Rejected (not_ok_error N r)
            else (case body_json r of Inl e \<Rightarrow> Rejected e | Inr v \<Rightarrow> Resolved v)),
       [req]))"

subsection \<open>The declared shapes\<close>

text \<open>The interfaces \<open>AnalysisResult\<close> and \<open>ApiError\<close> of the source, as predicates on values.\<close>

fun is_number :: "'n json \<Rightarrow> bool" where
  "is_number (JNum n) = True"
| "is_number v = False"

fun is_string :: "'n json \<Rightarrow> bool" where
  "is_string (JStr s) = True"
| "is_string v = False"

fun is_string_array :: "'n json \<Rightarrow> bool" where
  "is_string_array (JArr xs) = list_all is_string xs"
| "is_string_array v = False"

definition has_field :: "('n json \<Rightarrow> bool) \<Rightarrow> 'n json \<Rightarrow> string \<Rightarrow> bool" where
  "has_field shape v k = (case read_prop v k of Inr (Some x) \<Rightarrow> shape x | _ \<Rightarrow> False)"

definition optional_field :: "('n json \<Rightarrow> bool) \<Rightarrow> 'n json \<Rightarrow> string \<Rightarrow> bool" where
  "optional_field shape v k =
     (case read_prop v k of Inr (Some x) \<Rightarrow> shape x | Inr None \<Rightarrow> True | Inl e \<Rightarrow> False)"

definition is_AnalysisResult :: "'n json \<Rightarrow> bool" where
  "is_AnalysisResult v =
     (has_field is_string v ''crop_type'' \<and> has_field is_string v ''disease_status'' \<and>
      has_field is_number v ''severity_level'' \<and> has_field is_number v ''confidence'' \<and>
      has_field is_string_array v ''recommendations'')"

definition is_ApiError :: "'n json \<Rightarrow> bool" where
  "is_ApiError v = (optional_field is_string v ''detail'' \<and> optional_field is_string v ''message'')"

text \<open>The text of a string member, empty when the member is absent or not a string.\<close>

definition string_field :: "'n json \<Rightarrow> string \<Rightarrow> string" where
  "string_field v k = (case read_prop v k of Inr (Some (JStr s)) \<Rightarrow> s | _ \<Rightarrow> [])"

text \<open>
  The message the specification asks for, read off the declared \<open>ApiError\<close> shape:
  \<open>detail\<close>, else \<open>message\<close>, else a text with the status code.
\<close>

definition declared_failure_message :: "'n response \<Rightarrow> string" where
  "declared_failure_message r =
     (let body = (case body_json r of Inl e \<Rightarrow> JObj [] | Inr v \<Rightarrow> v);
          d = string_field body ''detail'';
          m = string_field body ''message''
      in if d \<noteq> [] then d else if m \<noteq> [] then m
         else ''HTTP error! status: '' @ show_nat (status r))"

section \<open>PlantHealth.tsx: the page that calls the client\<close>

text \<open>
  The React state of the page, with three additions that record its effects: the
  \<open>FileReader\<close>s started and not yet finished, the requests sent to the network, and
  the calls of \<open>analyzePlantImage\<close> on which a run of \<open>handleAnalyze\<close> is suspended,
  each with the way its promise is going to settle. \<open>analysis\<close> holds the value returned
  by the client together with the timestamp.
\<close>

record 'n page =
  image :: "string option"
  imageFile :: "File option"
  analysis :: "('n json \<times> string) option"
  loading :: bool
  error :: "string option"
  readers :: "File list"
  requests :: "request list"
  awaiting :: "'n settled list"

definition initial_page :: "'n page" where
  "initial_page =
     \<lparr>image = None, imageFile = None, analysis = None, loading = False, error = None,
      readers = [], requests = [], awaiting = []\<rparr>"

definition valid_image_file :: "File \<Rightarrow> bool" where
  "valid_image_file f = (prefix ''image/'' (file_type f) \<and> \<not> file_size f > 5 * 1024 * 1024)"

definition handleImageSelect :: "'n page \<Rightarrow> File \<Rightarrow> 'n page" where
  "handleImageSelect st f =
     (if \<not> prefix ''image/'' (file_type f) then st\<lparr>error := Some ''Please select a valid image file''\<rparr>
      else if file_size f > 5 * 1024 * 1024 then st\<lparr>error := Some ''File size must be less than 5MB''\<rparr>
      else st\<lparr>readers := readers st @ [f]\<rparr>)"

text \<open>\<open>reader.onloadend\<close> of the \<open>k\<close>-th reader in flight; \<open>res\<close> is \<open>reader.result\<close>.\<close>

definition onloadend :: "'n page \<Rightarrow> nat \<Rightarrow> string option \<Rightarrow> 'n page" where
  "onloadend st k res =
     (if k < length (readers st)
      then st\<lparr>image := res, imageFile := Some (readers st ! k), error := None,
              readers := take k (readers st) @ drop (Suc k) (readers st)\<rparr>
      else st)"

text \<open>
  \<open>handleAnalyze\<close> is an async function, and other handlers of the page can run while
  it waits. It is therefore given in two parts. \<open>handleAnalyze_call\<close> runs from the click
  to \<open>await analyzePlantImage(imageFile)\<close>: the request goes out and the run is
  suspended. \<open>handleAnalyze_resume\<close> is the rest, run when the promise of the \<open>k\<close>-th
  suspended call settles, on the state the page has by then; \<open>now\<close> is
  \<open>new Date().toLocaleString()\<close>. Every exception of this model is an instance of
  \<open>Error\<close>, so the \<open>catch\<close> block stores \<open>err.message\<close>; its text for other thrown
  values is never needed.
\<close>

definition handleAnalyze_call ::
  "'n numeric \<Rightarrow> (request \<Rightarrow> 'n fetch_result) \<Rightarrow> 'n page \<Rightarrow> 'n page" where
  "handleAnalyze_call N net st =
     (case imageFile st of
        None \<Rightarrow> st\<lparr>error := Some ''No image selected''\<rparr>
      | Some f \<Rightarrow>
          (case analyzePlantImage N net f of
             (out, reqs) \<Rightarrow>
               st\<lparr>loading := True, error := None, requests := requests st @ reqs,
                  awaiting := awaiting st @ [out]\<rparr>))"

definition handleAnalyze_resume :: "'n page \<Rightarrow> nat \<Rightarrow> string \<Rightarrow> 'n page" where
  "handleAnalyze_resume st k now =
     (if k < length (awaiting st)
      then (case awaiting st ! k of
              Resolved v \<Rightarrow>
                st\<lparr>analysis := Some (v, now), loading := False,
                   awaiting := take k (awaiting st) @ drop (Suc k) (awaiting st)\<rparr>
            | Rejected e \<Rightarrow>
                st\<lparr>loading := False, error := Some (err_message e),
                   awaiting := take k (awaiting st) @ drop (Suc k) (awaiting st)\<rparr>)
      else st)"

definition onClear :: "'n page \<Rightarrow> 'n page" where
  "onClear st = st\<lparr>image := None, imageFile := None, analysis := None, error := None\<rparr>"

datatype 'n ui_event =
    SelectImage File
  | ReaderLoadEnd nat "string option"
  | AnalyzeClick "request \<Rightarrow> 'n fetch_result"
  | AnalyzeSettles nat string
  | Clear

fun page_step :: "'n numeric \<Rightarrow> 'n page \<Rightarrow> 'n ui_event \<Rightarrow> 'n page" where
  "page_step N st (SelectImage f) = handleImageSelect st f"
| "page_step N st (ReaderLoadEnd k res) = onloadend st k res"
| "page_step N st (AnalyzeClick net) = handleAnalyze_call N net st"
| "page_step N st (AnalyzeSettles k now) = handleAnalyze_resume st k now"
| "page_step N st Clear = onClear st"

definition run_page :: "'n numeric \<Rightarrow> 'n ui_event list \<Rightarrow> 'n page" where
  "run_page N evs = foldl (page_step N) initial_page evs"

text \<open>What the page keeps true: every file it holds or has sent passed both checks.\<close>

definition page_inv :: "'n page \<Rightarrow> bool" where
  "page_inv st =
     (list_all valid_image_file (readers st) \<and>
      (case imageFile st of None \<Rightarrow> True | Some f \<Rightarrow> valid_image_file f) \<and>
      list_all (\<lambda>r. valid_image_file (form_file r)) (requests st))"

section \<open>i18n/config.ts: the language setting and its persistence\<close>

definition validLanguages :: "string list" where
  "validLanguages = [''en'', ''kn'', ''hi'']"

text \<open>
  The browser as the module sees it: whether \<open>window\<close> and \<open>localStorage\<close> exist, whether
  reading or writing the storage throws (a blocked or full storage), and what it holds.
\<close>

record browser =
  has_localStorage :: bool
  getItem_throws :: bool
  setItem_throws :: bool
  items :: "string \<rightharpoonup> string"

definition getSavedLanguage :: "browser \<Rightarrow> string" where
  "getSavedLanguage env =
     (if \<not> has_localStorage env then ''en''
      else if getItem_throws env then ''en''
      else (case items env ''i18nextLng'' of
              None \<Rightarrow> ''en''
            | Some v \<Rightarrow> if v \<noteq> [] then v else ''en''))"

definition initialLanguage :: "browser \<Rightarrow> string" where
  "initialLanguage env =
     (let savedLanguage = getSavedLanguage env
      in if savedLanguage \<in> set validLanguages then savedLanguage else ''en'')"


text \<open>
  The i18next instance: the current language and, for each language, its labels under
  their dotted keys. \<open>i18n.t\<close> searches the current language, its part before the first
  hyphen, and the fallback language \<open>en\<close>; with the options this module passes to
  \<open>init\<close>, a key found nowhere is returned itself, and an empty label is returned as it is.
  Labels are plain text: interpolation and nesting are not modelled.
\<close>

record i18n =
  language :: string
  resources :: "string \<Rightarrow> string \<rightharpoonup> string"

definition language_part :: "string \<Rightarrow> string" where
  "language_part lng = takeWhile (\<lambda>c. c \<noteq> CHR ''-'') lng"

definition i18n_t :: "i18n \<Rightarrow> string \<Rightarrow> string" where
  "i18n_t i key =
     (case List.map_filter (\<lambda>lng. resources i lng key)
             [language i, language_part (language i), ''en''] of
        [] \<Rightarrow> key
      | label # others \<Rightarrow> label)"

section \<open>dateUtils.ts\<close>

text \<open>
  \<open>localeMap[lang]\<close> reads a property of an object literal, so a name that
  \<open>Object.prototype\<close> defines is found there although the literal does not list it, and
  the value found (a function, or the prototype itself) is truthy. \<open>getLocaleCode\<close> then
  returns that member instead of a string.
\<close>

datatype locale_arg = LocaleTag string | PrototypeMember string

definition object_prototype_members :: "string list" where
  "object_prototype_members =
     [''constructor'', ''__defineGetter__'', ''__defineSetter__'', ''hasOwnProperty'',
      ''__lookupGetter__'', ''__lookupSetter__'', ''isPrototypeOf'', ''propertyIsEnumerable'',
      ''toString'', ''valueOf'', ''__proto__'', ''toLocaleString'']"

definition localeMap :: "(string \<times> string) list" where
  "localeMap = [(''en'', ''en-US''), (''hi'', ''hi-IN''), (''kn'', ''kn-IN'')]"

definition getLocaleCode :: "i18n \<Rightarrow> locale_arg" where
  "getLocaleCode i =
     (let lang = language i in
      case map_of localeMap lang of
        Some code \<Rightarrow> if code \<noteq> [] then LocaleTag code else LocaleTag ''en-US''
      | None \<Rightarrow>
          if lang \<in> set object_prototype_members then PrototypeMember lang
          else LocaleTag ''en-US'')"

subsection \<open>Number.prototype.toLocaleString\<close>

text \<open>
  A finite number is given by the decimal that prints it, the shortest one that reads back
  as the same double: 1.005 is the decimal 1.005, although the double lies a little below
  it. This is the value the host rounds when it formats. Negative zero is a number of its
  own: it prints with a minus sign and is not greater than zero.
\<close>

datatype number = Num rat | NegZero

definition magnitude :: "number \<Rightarrow> rat" where
  "magnitude x = (case x of Num q \<Rightarrow> \<bar>q\<bar> | NegZero \<Rightarrow> 0)"

definition is_negative :: "number \<Rightarrow> bool" where
  "is_negative x = (case x of Num q \<Rightarrow> q < 0 | NegZero \<Rightarrow> True)"

definition greater_than_zero :: "number \<Rightarrow> bool" where
  "greater_than_zero x = (case x of Num q \<Rightarrow> 0 < q | NegZero \<Rightarrow> False)"

text \<open>
  The host formats a number with the data of the locale it resolves. The three locales of
  \<open>localeMap\<close> write Latin digits, a full stop before the fraction, a comma between groups
  and a hyphen-minus; \<open>en-US\<close> and \<open>kn-IN\<close> group by three, \<open>hi-IN\<close> by three and then
  by two. A \<open>locales\<close> argument that is not a string names no locale, and the host falls
  back on its own default, \<open>dflt\<close>.
\<close>

record locale_data =
  digit :: "nat \<Rightarrow> string"
  decimal_sep :: string
  group_sep :: string
  minus_sign :: string
  primary_group :: nat
  secondary_group :: nat
  min_grouping :: nat

definition latn :: "nat \<Rightarrow> string" where
  "latn d = [digit_char d]"

definition en_US :: locale_data where
  "en_US = \<lparr>digit = latn, decimal_sep = ''.'', group_sep = '','', minus_sign = ''-'',
            primary_group = 3, secondary_group = 3, min_grouping = 1\<rparr>"

definition hi_IN :: locale_data where
  "hi_IN = \<lparr>digit = latn, decimal_sep = ''.'', group_sep = '','', minus_sign = ''-'',
            primary_group = 3, secondary_group = 2, min_grouping = 1\<rparr>"

definition kn_IN :: locale_data where
  "kn_IN = \<lparr>digit = latn, decimal_sep = ''.'', group_sep = '','', minus_sign = ''-'',
            primary_group = 3, secondary_group = 3, min_grouping = 1\<rparr>"

definition resolve_locale :: "locale_data \<Rightarrow> locale_arg \<Rightarrow> locale_data" where
  "resolve_locale dflt a =
     (case a of
        LocaleTag tag \<Rightarrow>
          if tag = ''en-US'' then en_US else if tag = ''hi-IN'' then hi_IN
          else if tag = ''kn-IN'' then kn_IN else dflt
      | PrototypeMember m \<Rightarrow> dflt)"

text \<open>
  The two options the module sets. Each must lie between 0 and 100, and the minimum must not
  exceed the maximum; otherwise the host throws a \<open>RangeError\<close>. Without options a
  plain number gets at most three fraction digits.
\<close>

record NumberFormatOptions =
  minimumFractionDigits :: "nat option"
  maximumFractionDigits :: "nat option"

definition range_error :: "string \<Rightarrow> js_error" where
  "range_error opt = JsError ''RangeError'' (opt @ '' value is out of range.'')"

definition fraction_digit_range :: "NumberFormatOptions option \<Rightarrow> js_error + nat \<times> nat" where
  "fraction_digit_range options =
     (case options of
        None \<Rightarrow> Inr (0, 3)
      | Some opts \<Rightarrow>
          (case (minimumFractionDigits opts, maximumFractionDigits opts) of
             (None, None) \<Rightarrow> Inr (0, 3)
           | (Some mn, None) \<Rightarrow>
               if 100 < mn then Inl (range_error ''minimumFractionDigits'') else Inr (mn, max 3 mn)
           | (None, Some mx) \<Rightarrow>
               if 100 < mx then Inl (range_error ''maximumFractionDigits'') else Inr (min 0 mx, mx)
           | (Some mn, Some mx) \<Rightarrow>
               if 100 < mn then Inl (range_error ''minimumFractionDigits'')
               else if 100 < mx then Inl (range_error ''maximumFractionDigits'')
               else if mx < mn then Inl (range_error ''maximumFractionDigits'')
               else Inr (mn, mx)))"

text \<open>The magnitude scaled by \<open>10 ^ d\<close> and rounded to the nearest integer, a tie upwards.\<close>

definition round_half_expand :: "rat \<Rightarrow> nat \<Rightarrow> nat" where
  "round_half_expand x d = nat \<lfloor>\<bar>x\<bar> * 10 ^ d + 1 / 2\<rfloor>"

fun int_digits :: "nat \<Rightarrow> nat list" where
  "int_digits n = (if n < 10 then [n] else int_digits (n div 10) @ [n mod 10])"

declare int_digits.simps [simp del]

primrec fixed_digits :: "nat \<Rightarrow> nat \<Rightarrow> nat list" where
  "fixed_digits 0 n = []"
| "fixed_digits (Suc d) n = fixed_digits d (n div 10) @ [n mod 10]"

text \<open>Drops up to \<open>k\<close> zeros from the front of a list: the fraction is passed reversed.\<close>

fun strip_zeros :: "nat \<Rightarrow> nat list \<Rightarrow> nat list" where
  "strip_zeros 0 ds = ds"
| "strip_zeros (Suc k) [] = []"
| "strip_zeros (Suc k) (d # ds) = (if d = 0 then strip_zeros k ds else d # ds)"

text \<open>Grouping works on the integer digits from the least significant one.\<close>

function group_more :: "nat \<Rightarrow> string \<Rightarrow> string list \<Rightarrow> string list" where
  "group_more s sep ds =
     (if s = 0 \<or> length ds \<le> s then ds
      else take s ds @ sep # group_more s sep (drop s ds))"
  by pat_completeness auto
termination
  by (relation "measure (\<lambda>(s, sep, ds). length ds)") auto

declare group_more.simps [simp del]

definition group_digits :: "locale_data \<Rightarrow> string list \<Rightarrow> string list" where
  "group_digits L ds =
     (if primary_group L = 0 \<or> length ds < primary_group L + min_grouping L then ds
      else rev (take (primary_group L) (rev ds) @
                group_sep L # group_more (secondary_group L) (group_sep L)
                                 (drop (primary_group L) (rev ds))))"

definition format_number :: "locale_data \<Rightarrow> nat \<Rightarrow> nat \<Rightarrow> number \<Rightarrow> string" where
  "format_number L mn mx x =
     (let n = round_half_expand (magnitude x) mx;
          ip = int_digits (n div 10 ^ mx);
          fp = rev (strip_zeros (mx - mn) (rev (fixed_digits mx n)))
      in (if is_negative x then minus_sign L else []) @
         concat (group_digits L (map (digit L) ip)) @
         (if fp = [] then [] else decimal_sep L @ concat (map (digit L) fp)))"

definition toLocaleString ::
  "locale_data \<Rightarrow> locale_arg \<Rightarrow> NumberFormatOptions option \<Rightarrow> number \<Rightarrow> js_error + string" where
  "toLocaleString dflt locales options x =
     (case fraction_digit_range options of
        Inl e \<Rightarrow> Inl e
      | Inr (mn, mx) \<Rightarrow> Inr (format_number (resolve_locale dflt locales) mn mx x))"

subsection \<open>The formatters\<close>

text \<open>
  Each formatter reads \<open>i18n.language\<close>; the instance and the host's default locale are
  passed explicitly. An exception of \<open>toLocaleString\<close> leaves the formatter uncaught.
\<close>

definition formatNumber ::
  "locale_data \<Rightarrow> i18n \<Rightarrow> number \<Rightarrow> NumberFormatOptions option \<Rightarrow> js_error + string" where
  "formatNumber dflt i num options = toLocaleString dflt (getLocaleCode i) options num"

definition formatNumberWithPercent ::
  "locale_data \<Rightarrow> i18n \<Rightarrow> number \<Rightarrow> bool \<Rightarrow> js_error + string" where
  "formatNumberWithPercent dflt i num showPlus =
     (case formatNumber dflt i num None of
        Inl e \<Rightarrow> Inl e
      | Inr formatted \<Rightarrow>
          Inr (if showPlus \<and> greater_than_zero num then ''+'' @ formatted @ ''%''
               else formatted @ ''%''))"

text \<open>\<open>decimals\<close> defaults to 1 when the caller leaves it out.\<close>

definition formatDecimal ::
  "locale_data \<Rightarrow> i18n \<Rightarrow> number \<Rightarrow> nat option \<Rightarrow> js_error + string" where
  "formatDecimal dflt i num decimals_arg =
     (let decimals = (case decimals_arg of None \<Rightarrow> 1 | Some d \<Rightarrow> d)
      in toLocaleString dflt (getLocaleCode i)
           (Some \<lparr>minimumFractionDigits = Some decimals, maximumFractionDigits = Some decimals\<rparr>) num)"

text \<open>
  The month helpers. \<open>monthKeys[monthIndex]\<close> is \<open>undefined\<close> outside the table; the
  template then spells it \<open>undefined\<close>, and \<open>None\<close> is the \<open>undefined\<close> the helper returns.
\<close>

definition getMonthAbbr :: "i18n \<Rightarrow> nat \<Rightarrow> string option" where
  "getMonthAbbr i monthIndex =
     (let monthKeys = [''jan'', ''feb'', ''mar'', ''apr'', ''may'', ''jun'',
                       ''jul'', ''aug'', ''sep'', ''oct'', ''nov'', ''dec''];
          key = (if monthIndex < length monthKeys then Some (monthKeys ! monthIndex) else None);
          label = i18n_t i (''months.'' @ (case key of None \<Rightarrow> ''undefined'' | Some k \<Rightarrow> k))
      in if label \<noteq> [] then Some label else key)"

definition getMonthName :: "i18n \<Rightarrow> nat \<Rightarrow> string option" where
  "getMonthName i monthIndex =
     (let monthKeys = [''january'', ''february'', ''march'', ''april'', ''mayFull'', ''june'',
                       ''july'', ''august'', ''september'', ''october'', ''november'', ''december''];
          key = (if monthIndex < length monthKeys then Some (monthKeys ! monthIndex) else None);
          label = i18n_t i (''months.'' @ (case key of None \<Rightarrow> ''undefined'' | Some k \<Rightarrow> k))
      in if label \<noteq> [] then Some label else key)"

subsection \<open>Reading a formatted number\<close>

definition is_digit :: "char \<Rightarrow> bool" where
  "is_digit c = (c \<in> set ''0123456789'')"

text \<open>What follows the first full stop of a string; empty when there is none.\<close>

definition fraction_part :: "string \<Rightarrow> string" where
  "fraction_part s = (case dropWhile (\<lambda>c. c \<noteq> CHR ''.'') s of [] \<Rightarrow> [] | dot # rest \<Rightarrow> rest)"

text \<open>
  Reading a number back from its text in Latin digits: group separators are skipped, the
  digits before the full stop give the integer part and those after it the fraction.
\<close>

definition digit_value :: "char \<Rightarrow> nat" where
  "digit_value c = length (takeWhile (\<lambda>d. d \<noteq> c) ''0123456789'')"

definition read_nat :: "string \<Rightarrow> nat" where
  "read_nat s = foldl (\<lambda>a c. 10 * a + digit_value c) 0 s"


definition supported_locale :: "locale_data \<Rightarrow> bool" where
  "supported_locale L = (L = en_US \<or> L = hi_IN \<or> L = kn_IN)"

definition i18n_in :: "string \<Rightarrow> i18n" where
  "i18n_in lng = \<lparr>language = lng, resources = (\<lambda>l. Map.empty)\<rparr>"

definition january_only :: "string \<Rightarrow> string \<rightharpoonup> string" where
  "january_only = (\<lambda>l. if l = ''en'' then [''months.jan'' \<mapsto> ''Jan''] else Map.empty)"



subsection \<open>Sample data\<close>

definition int_numeric :: "int numeric" where
  "int_numeric =
     \<lparr>num_falsy = (\<lambda>n. n = 0),
      num_to_string = (\<lambda>n. if n < 0 then ''-'' @ show_nat (nat (- n)) else show_nat (nat n))\<rparr>"

definition leaf_png :: File where
  "leaf_png = \<lparr>file_name = ''leaf.png'', file_type = ''image/png'', file_size = 204800\<rparr>"

definition big_jpg :: File where
  "big_jpg = \<lparr>file_name = ''field.jpg'', file_type = ''image/jpeg'', file_size = 6291456\<rparr>"

definition notes_pdf :: File where
  "notes_pdf = \<lparr>file_name = ''notes.pdf'', file_type = ''application/pdf'', file_size = 1024\<rparr>"

definition failed_to_fetch :: js_error where
  "failed_to_fetch = JsError ''TypeError'' ''Failed to fetch''"

definition healthy_tomato :: "int json" where
  "healthy_tomato =
     JObj [(''crop_type'', JStr ''tomato''), (''disease_status'', JStr ''healthy''),
           (''severity_level'', JNum 0), (''confidence'', JNum 1),
           (''recommendations'', JArr [JStr ''Keep watering''])]"

definition tomato_without_confidence :: "int json" where
  "tomato_without_confidence =
     JObj [(''crop_type'', JStr ''tomato''), (''disease_status'', JStr ''healthy''),
           (''severity_level'', JNum 0), (''recommendations'', JArr [])]"

definition respond :: "nat \<Rightarrow> js_error + 'n json \<Rightarrow> request \<Rightarrow> 'n fetch_result" where
  "respond code body = (\<lambda>req. FetchResponds \<lparr>status = code, body_json = body\<rparr>)"

definition unparsable :: "js_error + 'n json" where
  "unparsable = Inl (JsError ''SyntaxError'' ''Unexpected token < in JSON at position 0'')"

section \<open>Properties of the Remote Analysis Client\<close>

lemma show_nat_nonempty: "show_nat n \<noteq> []"
  by (subst show_nat.simps) simp

lemma analyzePlantImage_one_request: "snd (analyzePlantImage N net f) = [analyze_request f]"
  by (simp add: analyzePlantImage_def Let_def)

lemma form_file_analyze_request: "form_file (analyze_request f) = f"
  by (simp add: analyze_request_def)

subsection \<open>How a call settles\<close>

lemma analyzePlantImage_resolves_iff:
  "(fst (analyzePlantImage N net f) = Resolved v) =
     (\<exists>r. net (analyze_request f) = FetchResponds r \<and> ok r \<and> body_json r = Inr v)"
  by (auto simp: analyzePlantImage_def Let_def split: fetch_result.splits sum.splits)

lemma analyzePlantImage_transport_failure:
  "net (analyze_request f) = FetchRejects e \<Longrightarrow> fst (analyzePlantImage N net f) = Rejected e"
  by (simp add: analyzePlantImage_def Let_def)

lemma handleAnalyze_call_suspends:
  assumes "imageFile st = Some f"
  shows "handleAnalyze_call N net st =
           st\<lparr>loading := True, error := None,
              requests := requests st @ [analyze_request f],
              awaiting := awaiting st @ [fst (analyzePlantImage N net f)]\<rparr>"
  using assms analyzePlantImage_one_request [of N net f]
  by (auto simp: handleAnalyze_call_def split: prod.splits)

lemma handleAnalyze_resume_catches:
  assumes "k < length (awaiting st)"
  shows "loading (handleAnalyze_resume st k now) = False \<and>
     (case awaiting st ! k of
        Resolved v \<Rightarrow>
          analysis (handleAnalyze_resume st k now) = Some (v, now) \<and>
          error (handleAnalyze_resume st k now) = error st
      | Rejected e \<Rightarrow>
          error (handleAnalyze_resume st k now) = Some (err_message e) \<and>
          analysis (handleAnalyze_resume st k now) = analysis st)"
  using assms by (simp add: handleAnalyze_resume_def split: settled.splits)

text \<open>
  C1, as the code has it. The call resolves with a value exactly when the response has a
  success status and its body parses to that value; in every other case it rejects, and
  when \<open>fetch\<close> fails the rejection is the transport error itself, unchanged. The
  rejection is caught one level up, by \<open>handleAnalyze\<close>. Run with a file selected, it sets
  \<open>loading\<close>, clears the error, sends the request and waits for the call. When the call
  settles, the rest of \<open>handleAnalyze\<close> sets \<open>loading\<close> to false and stores the analysis
  on a resolution, leaving the error as the page has it by then, or stores the message of
  the rejection as the error, leaving the analysis as it is.
\<close>

theorem analyzePlantImage_rethrows_and_handleAnalyze_catches:
  "(\<forall>v. (fst (analyzePlantImage N net f) = Resolved v) =
         (\<exists>r. net (analyze_request f) = FetchResponds r \<and> ok r \<and> body_json r = Inr v)) \<and>
   (\<forall>e. net (analyze_request f) = FetchRejects e \<longrightarrow>
         fst (analyzePlantImage N net f) = Rejected e) \<and>
   (imageFile st = Some f \<longrightarrow>
      handleAnalyze_call N net st =
        st\<lparr>loading := True, error := None,
           requests := requests st @ [analyze_request f],
           awaiting := awaiting st @ [fst (analyzePlantImage N net f)]\<rparr>) \<and>
   (k < length (awaiting st') \<longrightarrow>
      loading (handleAnalyze_resume st' k now) = False \<and>
      (case awaiting st' ! k of
         Resolved v \<Rightarrow>
           analysis (handleAnalyze_resume st' k now) = Some (v, now) \<and>
           error (handleAnalyze_resume st' k now) = error st'
       | Rejected e \<Rightarrow>
           error (handleAnalyze_resume st' k now) = Some (err_message e) \<and>
           analysis (handleAnalyze_resume st' k now) = analysis st'))"
  using analyzePlantImage_resolves_iff [where net = net and f = f and N = N]
    analyzePlantImage_transport_failure [where net = net and f = f and N = N]
    handleAnalyze_call_suspends [where st = st and f = f and N = N and net = net]
    handleAnalyze_resume_catches [where st = st' and k = k and now = now]
  by blast

text \<open>
  A failed \<open>fetch\<close> with a file selected: the call is suspended on a rejection, and
  when it settles the page shows the message of the transport error.
\<close>

theorem analyzePlantImage_rethrows_and_handleAnalyze_catches_witness:
  "imageFile (initial_page\<lparr>imageFile := Some leaf_png\<rparr> :: int page) = Some leaf_png \<and>
   fst (analyzePlantImage int_numeric (\<lambda>req. FetchRejects failed_to_fetch) leaf_png)
     = Rejected failed_to_fetch \<and>
   awaiting (handleAnalyze_call int_numeric (\<lambda>req. FetchRejects failed_to_fetch)
               (initial_page\<lparr>imageFile := Some leaf_png\<rparr>)) = [Rejected failed_to_fetch] \<and>
   loading (handleAnalyze_resume
              (handleAnalyze_call int_numeric (\<lambda>req. FetchRejects failed_to_fetch)
                 (initial_page\<lparr>imageFile := Some leaf_png\<rparr>)) 0 ''10:00'') = False \<and>
   error (handleAnalyze_resume
            (handleAnalyze_call int_numeric (\<lambda>req. FetchRejects failed_to_fetch)
               (initial_page\<lparr>imageFile := Some leaf_png\<rparr>)) 0 ''10:00'')
     = Some ''Failed to fetch''"
proof -
  let ?net = "\<lambda>req :: request. FetchRejects failed_to_fetch :: int fetch_result"
  let ?st = "initial_page\<lparr>imageFile := Some leaf_png\<rparr> :: int page"
  have sel: "imageFile ?st = Some leaf_png" by simp
  have rej: "?net (analyze_request leaf_png) = FetchRejects failed_to_fetch" by simp
  from analyzePlantImage_rethrows_and_handleAnalyze_catches
    [where net = ?net and f = leaf_png and N = int_numeric and st = ?st]
  have out: "fst (analyzePlantImage int_numeric ?net leaf_png) = Rejected failed_to_fetch"
    and call: "handleAnalyze_call int_numeric ?net ?st =
        ?st\<lparr>loading := True, error := None,
           requests := requests ?st @ [analyze_request leaf_png],
           awaiting := awaiting ?st @ [fst (analyzePlantImage int_numeric ?net leaf_png)]\<rparr>"
    using sel rej by blast+
  have aw: "awaiting (handleAnalyze_call int_numeric ?net ?st) = [Rejected failed_to_fetch]"
    by (simp only: call out) (simp add: initial_page_def)
  define X where "X = handleAnalyze_call int_numeric ?net ?st"
  have awX: "awaiting X = [Rejected failed_to_fetch]"
    using aw by (simp only: X_def)
  then have len: "0 < length (awaiting X)" by simp
  from analyzePlantImage_rethrows_and_handleAnalyze_catches
    [where st' = X and k = 0 and now = "''10:00''"
       and net = ?net and f = leaf_png and N = int_numeric and st = ?st] len
  have res: "loading (handleAnalyze_resume X 0 ''10:00'') = False \<and>
      (case awaiting X ! 0 of
         Resolved v \<Rightarrow>
           analysis (handleAnalyze_resume X 0 ''10:00'') = Some (v, ''10:00'') \<and>
           error (handleAnalyze_resume X 0 ''10:00'') = error X
       | Rejected e \<Rightarrow>
           error (handleAnalyze_resume X 0 ''10:00'') = Some (err_message e) \<and>
           analysis (handleAnalyze_resume X 0 ''10:00'') = analysis X)"
    by blast
  have "loading (handleAnalyze_resume X 0 ''10:00'') = False \<and>
        error (handleAnalyze_resume X 0 ''10:00'') = Some ''Failed to fetch''"
    using res by (simp add: awX failed_to_fetch_def)
  with sel out aw show ?thesis
    by (simp add: X_def)
qed

text \<open>A failed \<open>fetch\<close>: the caller of \<open>analyzePlantImage\<close> receives the raw \<open>TypeError\<close>.\<close>

theorem analyzePlantImage_propagates_transport_error:
  "fst (analyzePlantImage int_numeric (\<lambda>req. FetchRejects (JsError ''TypeError'' ''Failed to fetch''))
          leaf_png)
     = Rejected (JsError ''TypeError'' ''Failed to fetch'')"
  by (simp add: analyzePlantImage_def Let_def)

text \<open>
  The page stays live while a call is awaited. The user starts an analysis, clears the
  page and picks an image of 6 MiB, and then the response arrives: the page ends with the
  analysis stored and the size error shown. A run that nothing interrupts ends, on a
  resolution, with no error.
\<close>

lemma analysis_and_error_together:
  "analysis (run_page int_numeric
      [SelectImage leaf_png, ReaderLoadEnd 0 (Some ''data:image/png;base64,AAAA''),
       AnalyzeClick (respond 200 (Inr healthy_tomato)), Clear, SelectImage big_jpg,
       AnalyzeSettles 0 ''10:00'']) = Some (healthy_tomato, ''10:00'') \<and>
   error (run_page int_numeric
      [SelectImage leaf_png, ReaderLoadEnd 0 (Some ''data:image/png;base64,AAAA''),
       AnalyzeClick (respond 200 (Inr healthy_tomato)), Clear, SelectImage big_jpg,
       AnalyzeSettles 0 ''10:00'']) = Some ''File size must be less than 5MB''"
  by (simp add: run_page_def initial_page_def handleImageSelect_def onloadend_def onClear_def
      handleAnalyze_call_def handleAnalyze_resume_def analyzePlantImage_def Let_def
      respond_def ok_def leaf_png_def big_jpg_def)

lemma uninterrupted_success_leaves_no_error:
  assumes "imageFile st = Some f" and "fst (analyzePlantImage N net f) = Resolved v"
  shows "error (handleAnalyze_resume (handleAnalyze_call N net st) (length (awaiting st)) now) = None \<and>
         analysis (handleAnalyze_resume (handleAnalyze_call N net st) (length (awaiting st)) now)
           = Some (v, now)"
  using assms
  by (simp add: handleAnalyze_call_suspends handleAnalyze_resume_def nth_append)

subsection \<open>Validation sits in the page\<close>

lemma page_inv_initial: "page_inv initial_page"
  by (simp add: page_inv_def initial_page_def)

lemma page_inv_select: "page_inv st \<Longrightarrow> page_inv (handleImageSelect st f)"
  by (simp add: page_inv_def handleImageSelect_def valid_image_file_def)

lemma page_inv_onloadend:
  assumes inv: "page_inv st"
  shows "page_inv (onloadend st k res)"
proof (cases "k < length (readers st)")
  case True
  from inv have all: "list_all valid_image_file (readers st)"
    by (simp add: page_inv_def)
  from all True have "valid_image_file (readers st ! k)"
    by (simp add: list_all_length)
  moreover from all have "list_all valid_image_file (take k (readers st) @ drop (Suc k) (readers st))"
    by (auto simp: list_all_iff dest: in_set_takeD in_set_dropD)
  ultimately show ?thesis
    using inv True by (simp add: page_inv_def onloadend_def)
next
  case False
  with inv show ?thesis by (simp add: onloadend_def)
qed

lemma page_inv_call: "page_inv st \<Longrightarrow> page_inv (handleAnalyze_call N net st)"
  by (auto simp: page_inv_def handleAnalyze_call_def analyzePlantImage_def Let_def
      form_file_analyze_request split: option.splits prod.splits)

lemma page_inv_resume: "page_inv st \<Longrightarrow> page_inv (handleAnalyze_resume st k now)"
  by (simp add: page_inv_def handleAnalyze_resume_def split: settled.splits)

lemma page_inv_clear: "page_inv st \<Longrightarrow> page_inv (onClear st)"
  by (simp add: page_inv_def onClear_def)

lemma page_inv_step: "page_inv st \<Longrightarrow> page_inv (page_step N st ev)"
  by (cases ev)
    (simp_all add: page_inv_select page_inv_onloadend page_inv_call page_inv_resume page_inv_clear)

lemma page_inv_foldl: "page_inv st \<Longrightarrow> page_inv (foldl (page_step N) st evs)"
  by (induction evs arbitrary: st) (simp_all add: page_inv_step)

lemma page_inv_run: "page_inv (run_page N evs)"
  by (simp add: run_page_def page_inv_foldl page_inv_initial)

text \<open>
  C2, as the code has it. The checks are made by \<open>handleImageSelect\<close> of the page, not by
  \<open>analyzePlantImage\<close>. A file that does not declare an image type, or is larger than
  5 MiB, only sets the error text of the page: it starts no reader, is never stored as
  \<open>imageFile\<close> and sends nothing. Whatever the user does on the page, every request that
  leaves it carries a file that passed both checks.
\<close>

theorem only_checked_files_reach_network:
  "(\<not> valid_image_file f \<longrightarrow>
      handleImageSelect st f =
        st\<lparr>error := Some (if \<not> prefix ''image/'' (file_type f)
                            then ''Please select a valid image file''
                            else ''File size must be less than 5MB'')\<rparr>) \<and>
   (\<forall>r \<in> set (requests (run_page N evs)). valid_image_file (form_file r))"
proof
  show "\<not> valid_image_file f \<longrightarrow>
      handleImageSelect st f =
        st\<lparr>error := Some (if \<not> prefix ''image/'' (file_type f)
                            then ''Please select a valid image file''
                            else ''File size must be less than 5MB'')\<rparr>"
    by (simp add: valid_image_file_def handleImageSelect_def)
  have "page_inv (run_page N evs)" by (rule page_inv_run)
  then show "\<forall>r \<in> set (requests (run_page N evs)). valid_image_file (form_file r)"
    by (simp add: page_inv_def list_all_iff)
qed

text \<open>
  A session on the page: a PDF is refused, then a PNG is chosen, read and analysed. The one
  request sent carries the PNG.
\<close>

theorem only_checked_files_reach_network_witness:
  "\<not> valid_image_file notes_pdf \<and>
   handleImageSelect (initial_page :: int page) notes_pdf =
     initial_page\<lparr>error := Some ''Please select a valid image file''\<rparr> \<and>
   requests (run_page int_numeric
      [SelectImage notes_pdf, AnalyzeClick (respond 200 (Inr healthy_tomato)),
       SelectImage leaf_png, ReaderLoadEnd 0 (Some ''data:image/png;base64,AAAA''),
       AnalyzeClick (respond 200 (Inr healthy_tomato)), AnalyzeSettles 0 ''10:01''])
     = [analyze_request leaf_png] \<and>
   valid_image_file (form_file (analyze_request leaf_png))"
proof -
  let ?evs = "[SelectImage notes_pdf, AnalyzeClick (respond 200 (Inr healthy_tomato)),
       SelectImage leaf_png, ReaderLoadEnd 0 (Some ''data:image/png;base64,AAAA''),
       AnalyzeClick (respond 200 (Inr healthy_tomato)), AnalyzeSettles 0 ''10:01'']"
  have bad: "\<not> valid_image_file notes_pdf"
    by (simp add: valid_image_file_def notes_pdf_def)
  have sent: "requests (run_page int_numeric ?evs) = [analyze_request leaf_png]"
    by (simp add: run_page_def initial_page_def handleImageSelect_def onloadend_def
        handleAnalyze_call_def handleAnalyze_resume_def analyzePlantImage_def Let_def
        respond_def ok_def notes_pdf_def leaf_png_def)
  from only_checked_files_reach_network
    [where f = notes_pdf and st = "initial_page :: int page" and N = int_numeric and evs = ?evs]
  have sel: "\<not> valid_image_file notes_pdf \<longrightarrow>
      handleImageSelect (initial_page :: int page) notes_pdf =
        initial_page\<lparr>error := Some (if \<not> prefix ''image/'' (file_type notes_pdf)
                            then ''Please select a valid image file''
                            else ''File size must be less than 5MB'')\<rparr>"
    and all: "\<forall>r \<in> set (requests (run_page int_numeric ?evs)). valid_image_file (form_file r)"
    by blast+
  from sel bad have "handleImageSelect (initial_page :: int page) notes_pdf =
     initial_page\<lparr>error := Some ''Please select a valid image file''\<rparr>"
    by (simp add: notes_pdf_def)
  moreover from all sent have "valid_image_file (form_file (analyze_request leaf_png))"
    by simp
  ultimately show ?thesis
    using bad sent by simp
qed

text \<open>\<open>analyzePlantImage\<close> itself checks nothing: given a PDF it sends the request and resolves.\<close>

theorem analyzePlantImage_sends_non_image:
  "\<not> prefix ''image/'' (file_type notes_pdf) \<and>
   analyzePlantImage int_numeric (respond 200 (Inr healthy_tomato)) notes_pdf
     = (Resolved healthy_tomato, [analyze_request notes_pdf])"
  by (simp add: analyzePlantImage_def Let_def respond_def ok_def notes_pdf_def)

subsection \<open>Success responses\<close>

text \<open>
  C3, as the code has it. On a success status the client resolves with whatever value the
  body parses to, and never compares it with \<open>AnalysisResult\<close>; a body that does not
  parse makes the call reject with the parser's exception.
\<close>

theorem analyzePlantImage_success_returns_body_unchecked:
  assumes "ok r" and "net (analyze_request f) = FetchResponds r"
  shows "fst (analyzePlantImage N net f) =
           (case body_json r of Inr v \<Rightarrow> Resolved v | Inl e \<Rightarrow> Rejected e)"
  using assms by (simp add: analyzePlantImage_def Let_def split: sum.splits)

theorem analyzePlantImage_success_returns_body_unchecked_witness:
  "ok \<lparr>status = 200, body_json = Inr healthy_tomato\<rparr> \<and>
   is_AnalysisResult healthy_tomato \<and>
   fst (analyzePlantImage int_numeric (respond 200 (Inr healthy_tomato)) leaf_png)
     = Resolved healthy_tomato"
proof -
  have o: "ok \<lparr>status = 200, body_json = Inr healthy_tomato\<rparr>"
    by (simp add: ok_def)
  have n: "respond 200 (Inr healthy_tomato) (analyze_request leaf_png)
             = FetchResponds \<lparr>status = 200, body_json = Inr healthy_tomato\<rparr>"
    by (simp add: respond_def)
  have shape: "is_AnalysisResult healthy_tomato"
    by (simp add: is_AnalysisResult_def has_field_def read_prop_def healthy_tomato_def)
  from analyzePlantImage_success_returns_body_unchecked
    [where r = "\<lparr>status = 200, body_json = Inr healthy_tomato\<rparr>"
       and net = "respond 200 (Inr healthy_tomato)" and f = leaf_png and N = int_numeric, OF o n]
  show ?thesis using o shape by simp
qed

text \<open>A 200 response whose body lacks \<open>confidence\<close> is handed to the caller as the result.\<close>

theorem analyzePlantImage_returns_malformed_body:
  "\<not> is_AnalysisResult tomato_without_confidence \<and>
   fst (analyzePlantImage int_numeric (respond 200 (Inr tomato_without_confidence)) leaf_png)
     = Resolved tomato_without_confidence"
  by (simp add: analyzePlantImage_def Let_def respond_def ok_def is_AnalysisResult_def
      has_field_def read_prop_def tomato_without_confidence_def)

subsection \<open>Error responses\<close>

lemma is_string_JStr: "is_string x \<Longrightarrow> \<exists>s. x = JStr s"
  by (cases x) simp_all

lemma string_field_cases:
  assumes "optional_field is_string v k"
  shows "read_prop v k = Inr None \<and> string_field v k = [] \<or>
     (\<exists>s. read_prop v k = Inr (Some (JStr s)) \<and> string_field v k = s)"
proof (cases "read_prop v k")
  case (Inl e)
  with assms show ?thesis by (simp add: optional_field_def)
next
  case (Inr p)
  show ?thesis
  proof (cases p)
    case None
    with Inr show ?thesis by (simp add: string_field_def)
  next
    case (Some x)
    with Inr assms have "is_string x" by (simp add: optional_field_def)
    then obtain s where "x = JStr s" using is_string_JStr by blast
    with Inr Some show ?thesis by (simp add: string_field_def)
  qed
qed

lemma not_ok_error_declared:
  assumes "case body_json r of Inl e \<Rightarrow> True | Inr v \<Rightarrow> is_ApiError v"
  shows "not_ok_error N r = JsError ''Error'' (declared_failure_message r)"
proof -
  define body where "body = (case body_json r of Inl e \<Rightarrow> JObj [] | Inr v \<Rightarrow> v)"
  have shape: "is_ApiError body"
    using assms
    by (auto simp: body_def is_ApiError_def optional_field_def read_prop_def split: sum.splits)
  then have od: "optional_field is_string body ''detail''"
    and om: "optional_field is_string body ''message''"
    by (simp_all add: is_ApiError_def)
  have d: "read_prop body ''detail'' = Inr None \<and> string_field body ''detail'' = [] \<or>
     (\<exists>s. read_prop body ''detail'' = Inr (Some (JStr s)) \<and> string_field body ''detail'' = s)"
    using od by (rule string_field_cases)
  have m: "read_prop body ''message'' = Inr None \<and> string_field body ''message'' = [] \<or>
     (\<exists>s. read_prop body ''message'' = Inr (Some (JStr s)) \<and> string_field body ''message'' = s)"
    using om by (rule string_field_cases)
  have unfold: "not_ok_error N r =
     (let fallback = JsError ''Error'' (''HTTP error! status: '' @ show_nat (status r));
          from_message =
            (case read_prop body ''message'' of
               Inl e \<Rightarrow> e
             | Inr None \<Rightarrow> fallback
             | Inr (Some m) \<Rightarrow> if truthy N m then JsError ''Error'' (ToString N m) else fallback)
      in case read_prop body ''detail'' of
           Inl e \<Rightarrow> e
         | Inr None \<Rightarrow> from_message
         | Inr (Some d) \<Rightarrow> if truthy N d then JsError ''Error'' (ToString N d) else from_message)"
    by (simp add: not_ok_error_def body_def Let_def)
  have decl: "declared_failure_message r =
      (if string_field body ''detail'' \<noteq> [] then string_field body ''detail''
       else if string_field body ''message'' \<noteq> [] then string_field body ''message''
       else ''HTTP error! status: '' @ show_nat (status r))"
    by (simp add: declared_failure_message_def body_def Let_def)
  from d m show ?thesis
    unfolding unfold decl by (auto simp: Let_def)
qed

lemma declared_failure_message_nonempty: "declared_failure_message r \<noteq> []"
  by (simp add: declared_failure_message_def Let_def)

lemma declared_failure_message_fallback:
  assumes "body_json r = Inl e"
  shows "declared_failure_message r = ''HTTP error! status: '' @ show_nat (status r)"
  using assms by (simp add: declared_failure_message_def string_field_def read_prop_def)

text \<open>
  C4, as the code has it. Take a response without a success status whose body either does
  not parse or parses to a value of the declared shape \<open>ApiError\<close> (an object whose
  \<open>detail\<close> and \<open>message\<close>, where present, are strings). The call rejects with an
  \<open>Error\<close> whose message is \<open>detail\<close> when that is a non-empty string, otherwise
  \<open>message\<close> when that is a non-empty string, otherwise the text
  \<open>HTTP error! status: \<close> followed by the status code in decimal. The message is never
  empty, and for a body that does not parse it contains the status code.
\<close>

theorem not_ok_message_resolution:
  assumes "\<not> ok r" and "net (analyze_request f) = FetchResponds r"
    and "case body_json r of Inl e \<Rightarrow> True | Inr v \<Rightarrow> is_ApiError v"
  shows "fst (analyzePlantImage N net f) = Rejected (JsError ''Error'' (declared_failure_message r)) \<and>
         declared_failure_message r \<noteq> [] \<and>
         (case body_json r of
            Inl e \<Rightarrow> sublist (show_nat (status r)) (declared_failure_message r)
          | Inr v \<Rightarrow> True)"
proof -
  have "fst (analyzePlantImage N net f) = Rejected (JsError ''Error'' (declared_failure_message r))"
    using assms by (simp add: analyzePlantImage_def Let_def not_ok_error_declared)
  moreover have "case body_json r of
            Inl e \<Rightarrow> sublist (show_nat (status r)) (declared_failure_message r)
          | Inr v \<Rightarrow> True"
  proof (cases "body_json r")
    case (Inl e)
    have "sublist (show_nat (status r)) (''HTTP error! status: '' @ show_nat (status r) @ [])"
      by (rule sublist_appendI)
    with Inl show ?thesis
      by (simp only: declared_failure_message_fallback [OF Inl] sum.case append_Nil2)
  next
    case (Inr v)
    then show ?thesis by simp
  qed
  ultimately show ?thesis
    by (simp add: declared_failure_message_nonempty)
qed

text \<open>
  The two examples of the specification: status 500 with the body
  \<open>{"detail":"model unavailable"}\<close>, and status 500 with a body that does not parse.
\<close>

theorem not_ok_message_resolution_witness:
  "\<not> ok \<lparr>status = 500, body_json = Inr (JObj [(''detail'', JStr ''model unavailable'')] :: int json)\<rparr> \<and>
   is_ApiError (JObj [(''detail'', JStr ''model unavailable'')] :: int json) \<and>
   fst (analyzePlantImage int_numeric
          (respond 500 (Inr (JObj [(''detail'', JStr ''model unavailable'')]))) leaf_png)
     = Rejected (JsError ''Error'' ''model unavailable'') \<and>
   fst (analyzePlantImage int_numeric (respond 500 unparsable) leaf_png)
     = Rejected (JsError ''Error'' ''HTTP error! status: 500'') \<and>
   sublist ''500'' ''HTTP error! status: 500''"
proof -
  let ?body = "JObj [(''detail'', JStr ''model unavailable'')] :: int json"
  let ?r1 = "\<lparr>status = 500, body_json = Inr ?body\<rparr>"
  let ?r2 = "\<lparr>status = 500, body_json = unparsable :: js_error + int json\<rparr>"
  have s500: "show_nat 500 = ''500''"
    by (simp add: show_nat.simps digit_char_def)
  have o1: "\<not> ok ?r1" and o2: "\<not> ok ?r2"
    by (simp_all add: ok_def)
  have shape: "is_ApiError ?body"
    by (simp add: is_ApiError_def optional_field_def read_prop_def)
  have n1: "respond 500 (Inr ?body) (analyze_request leaf_png) = FetchResponds ?r1"
    and n2: "respond 500 unparsable (analyze_request leaf_png) = FetchResponds ?r2"
    by (simp_all add: respond_def)
  have b1: "case body_json ?r1 of Inl e \<Rightarrow> True | Inr v \<Rightarrow> is_ApiError v"
    using shape by simp
  have b2: "case body_json ?r2 of Inl e \<Rightarrow> True | Inr v \<Rightarrow> is_ApiError v"
    by (simp add: unparsable_def)
  have m1: "declared_failure_message ?r1 = ''model unavailable''"
    by (simp add: declared_failure_message_def string_field_def read_prop_def)
  have m2: "declared_failure_message ?r2 = ''HTTP error! status: 500''"
    by (simp add: declared_failure_message_def string_field_def read_prop_def unparsable_def s500)
  from not_ok_message_resolution [where r = ?r1 and net = "respond 500 (Inr ?body)"
      and f = leaf_png and N = int_numeric, OF o1 n1 b1]
  have "fst (analyzePlantImage int_numeric (respond 500 (Inr ?body)) leaf_png)
     = Rejected (JsError ''Error'' ''model unavailable'')"
    by (simp add: m1)
  moreover
  from not_ok_message_resolution [where r = ?r2 and net = "respond 500 unparsable"
      and f = leaf_png and N = int_numeric, OF o2 n2 b2]
  have "fst (analyzePlantImage int_numeric (respond 500 unparsable) leaf_png)
     = Rejected (JsError ''Error'' ''HTTP error! status: 500'') \<and>
     sublist ''500'' ''HTTP error! status: 500''"
    by (simp add: m2 [unfolded unparsable_def] s500 unparsable_def)
  ultimately show ?thesis
    using o1 shape by simp
qed

text \<open>
  Outside the declared shape the rule fails. An array is truthy and prints as the join of
  its elements, so the body \<open>{"detail": []}\<close> yields the empty message; and a body that is
  the JSON value \<open>null\<close> makes the property read itself throw.
\<close>

theorem not_ok_message_empty_for_array_detail:
  "fst (analyzePlantImage int_numeric (respond 500 (Inr (JObj [(''detail'', JArr [])]))) leaf_png)
     = Rejected (JsError ''Error'' []) \<and>
   err_name (not_ok_error int_numeric \<lparr>status = 500, body_json = Inr JNull\<rparr>) = ''TypeError''"
  by (simp add: analyzePlantImage_def Let_def respond_def ok_def not_ok_error_def read_prop_def)

subsection \<open>Cancellation\<close>

lemma analyze_request_no_signal: "signal (analyze_request f) = None"
  by (simp add: analyze_request_def)

text \<open>
  C5, as the code has it. \<open>analyzePlantImage\<close> accepts no cancellation signal: its only
  parameter is the file, and the request it hands to \<open>fetch\<close> carries no signal.
  Whatever signals the caller aborts while the call is in flight, before the response
  arrives or while its body is read, the call settles as it would have without the
  cancellation, and sends the same request: there is no cancelled outcome. Each call
  settles once, with the one outcome that the answer of the network determines.
\<close>

theorem cancellation_changes_nothing:
  "signal (analyze_request f) = None \<and>
   analyzePlantImage N (fetch_with_abort early late net) f = analyzePlantImage N net f"
  by (simp add: analyzePlantImage_def Let_def fetch_with_abort_def analyze_request_no_signal)

text \<open>
  The caller aborts every signal there is before the response arrives: the call still
  resolves with the result, not with an \<open>AbortError\<close>.
\<close>

theorem cancelled_call_still_resolves:
  "fst (analyzePlantImage int_numeric
          (fetch_with_abort UNIV UNIV (respond 200 (Inr healthy_tomato))) leaf_png)
     = Resolved healthy_tomato \<and>
   fst (analyzePlantImage int_numeric
          (fetch_with_abort UNIV UNIV (respond 200 (Inr healthy_tomato))) leaf_png)
     \<noteq> Rejected abort_error"
  by (simp add: analyzePlantImage_def Let_def fetch_with_abort_def analyze_request_def
      respond_def ok_def)

text \<open>
  Had the request carried a signal, the same cancellation would have rejected the call:
  the outcome above comes from the request that the code builds.
\<close>

lemma signalled_request_is_aborted:
  "fetch_with_abort UNIV UNIV (respond 200 (Inr healthy_tomato))
      ((analyze_request leaf_png)\<lparr>signal := Some 0\<rparr>)
     = (FetchRejects abort_error :: int fetch_result)"
  by (simp add: fetch_with_abort_def)

section \<open>Properties of the Locale Formatter\<close>

subsection \<open>Digits, groups and rounding\<close>

lemma digit_char_is_digit: "is_digit (digit_char n)"
proof -
  have "n mod 10 < length ''0123456789''" by simp
  then have "''0123456789'' ! (n mod 10) \<in> set ''0123456789''" by (rule nth_mem)
  then show ?thesis by (simp only: is_digit_def digit_char_def)
qed


lemma length_fixed_digits: "length (fixed_digits d n) = d"
  by (induction d arbitrary: n) simp_all

lemma concat_map_latn: "concat (map latn ds) = map digit_char ds"
  by (induction ds) (simp_all add: latn_def)

lemma int_digits_small: "n < 10 \<Longrightarrow> int_digits n = [n]"
  by (subst int_digits.simps) simp

lemma int_digits_big: "\<not> n < 10 \<Longrightarrow> int_digits n = int_digits (n div 10) @ [n mod 10]"
  by (subst int_digits.simps) simp

lemma group_more_stop: "s = 0 \<or> length ds \<le> s \<Longrightarrow> group_more s sep ds = ds"
  by (subst group_more.simps) simp

lemma group_more_go:
  "\<not> (s = 0 \<or> length ds \<le> s) \<Longrightarrow>
     group_more s sep ds = take s ds @ sep # group_more s sep (drop s ds)"
  by (subst group_more.simps) simp

lemma set_group_more: "set (group_more s sep ds) \<subseteq> insert sep (set ds)"
proof (induction s sep ds rule: group_more.induct)
  case (1 s sep ds)
  show ?case
  proof (cases "s = 0 \<or> length ds \<le> s")
    case True
    then show ?thesis by (simp add: group_more_stop) auto
  next
    case False
    with 1 have "set (group_more s sep (drop s ds)) \<subseteq> insert sep (set (drop s ds))" by simp
    with False show ?thesis
      by (auto simp: group_more_go dest: in_set_takeD in_set_dropD)
  qed
qed

lemma set_group_digits: "set (group_digits L ds) \<subseteq> insert (group_sep L) (set ds)"
proof (cases "primary_group L = 0 \<or> length ds < primary_group L + min_grouping L")
  case True
  then show ?thesis by (auto simp: group_digits_def)
next
  case False
  have "set (group_more (secondary_group L) (group_sep L) (drop (primary_group L) (rev ds)))
          \<subseteq> insert (group_sep L) (set (drop (primary_group L) (rev ds)))"
    by (rule set_group_more)
  moreover have "set (drop (primary_group L) (rev ds)) \<subseteq> set ds"
    using set_drop_subset [of "primary_group L" "rev ds"] by simp
  moreover have "set (take (primary_group L) (rev ds)) \<subseteq> set ds"
    using set_take_subset [of "primary_group L" "rev ds"] by simp
  ultimately show ?thesis
    using False by (auto simp: group_digits_def)
qed

lemma floor_plus_half: "\<lfloor>of_int m + 1 / 2 :: rat\<rfloor> = m"
  by (rule floor_unique) simp_all

lemma round_half_expand_of_int: "round_half_expand (of_int k) d = nat \<bar>k\<bar> * 10 ^ d"
proof -
  have "\<bar>of_int k :: rat\<bar> * 10 ^ d + 1 / 2 = of_int (\<bar>k\<bar> * 10 ^ d) + 1 / 2"
    by simp
  then have "\<lfloor>\<bar>of_int k :: rat\<bar> * 10 ^ d + 1 / 2\<rfloor> = \<bar>k\<bar> * 10 ^ d"
    by (simp only: floor_plus_half)
  then show ?thesis
    by (simp add: round_half_expand_def nat_mult_distrib nat_power_eq)
qed

lemma round_half_expand_quotient:
  assumes "0 < b"
  shows "round_half_expand (of_int a / of_int b) d = nat ((2 * \<bar>a\<bar> * 10 ^ d + b) div (2 * b))"
proof -
  define x :: rat where "x = of_int \<bar>a\<bar>"
  define y :: rat where "y = of_int b"
  have y: "0 < y" using assms by (simp add: y_def)
  have "\<bar>of_int a / of_int b :: rat\<bar> = x / y"
    using assms by (simp add: x_def y_def abs_divide)
  moreover have "x / y * 10 ^ d + 1 / 2 = (2 * x * 10 ^ d + y) / (2 * y)"
    using y by (simp add: field_simps)
  moreover have "(2 * x * 10 ^ d + y) / (2 * y) = of_int (2 * \<bar>a\<bar> * 10 ^ d + b) / of_int (2 * b)"
    by (simp add: x_def y_def)
  ultimately have "\<bar>of_int a / of_int b :: rat\<bar> * 10 ^ d + 1 / 2 =
      of_int (2 * \<bar>a\<bar> * 10 ^ d + b) / of_int (2 * b)"
    by simp
  then show ?thesis
    by (simp only: round_half_expand_def floor_divide_of_int_eq)
qed

lemma round_half_expand_13_2: "round_half_expand (13 / 2) (Suc 0) = 65"
  using round_half_expand_quotient [of 2 13 "Suc 0"] by simp

lemma round_half_expand_numeral:
  "round_half_expand (numeral k) d = numeral k * 10 ^ d"
  "round_half_expand (- numeral k) d = numeral k * 10 ^ d"
  "round_half_expand 0 d = 0"
  using round_half_expand_of_int [of "numeral k" d] round_half_expand_of_int [of "- numeral k" d]
    round_half_expand_of_int [of 0 d]
  by simp_all

lemma fixed_digits_numeral:
  "fixed_digits (numeral k) n = fixed_digits (pred_numeral k) (n div 10) @ [n mod 10]"
  by (simp only: numeral_eq_Suc [of k] fixed_digits.simps)

lemma strip_zeros_numeral:
  "strip_zeros (numeral k) [] = []"
  "strip_zeros (numeral k) (d # ds) = (if d = 0 then strip_zeros (pred_numeral k) ds else d # ds)"
  by (simp_all only: numeral_eq_Suc [of k] strip_zeros.simps)

text \<open>The rewrite rules that evaluate a formatter on a numeral.\<close>

lemmas format_eval =
  formatDecimal_def formatNumber_def formatNumberWithPercent_def toLocaleString_def
  fraction_digit_range_def getLocaleCode_def localeMap_def resolve_locale_def i18n_in_def
  en_US_def hi_IN_def kn_IN_def format_number_def round_half_expand_numeral
  magnitude_def is_negative_def greater_than_zero_def
  int_digits_small int_digits_big group_digits_def group_more_stop group_more_go
  latn_def digit_char_def Let_def range_error_def fixed_digits_numeral strip_zeros_numeral

lemma supported_locale_fields:
  "supported_locale L \<Longrightarrow>
     digit L = latn \<and> decimal_sep L = ''.'' \<and> group_sep L = '','' \<and> minus_sign L = ''-''"
  by (auto simp: supported_locale_def en_US_def hi_IN_def kn_IN_def)

lemma resolve_supported:
  "language i \<in> set validLanguages \<Longrightarrow> supported_locale (resolve_locale dflt (getLocaleCode i))"
  by (auto simp: validLanguages_def getLocaleCode_def localeMap_def resolve_locale_def
      supported_locale_def)

subsection \<open>Reading digits back\<close>

lemma digit_value_digit_char: "digit_value (digit_char n) = n mod 10"
proof -
  define k where "k = n mod 10"
  have "k < 10" by (simp add: k_def)
  then have "k = 0 \<or> k = 1 \<or> k = 2 \<or> k = 3 \<or> k = 4 \<or> k = 5 \<or> k = 6 \<or> k = 7 \<or> k = 8 \<or> k = 9"
    by arith
  then have "length (takeWhile (\<lambda>d. d \<noteq> ''0123456789'' ! k) ''0123456789'') = k"
    by (elim disjE) simp_all
  then show ?thesis
    by (simp add: digit_value_def digit_char_def k_def)
qed

lemma read_nat_Nil: "read_nat [] = 0"
  by (simp add: read_nat_def)

lemma read_nat_snoc: "read_nat (s @ [c]) = 10 * read_nat s + digit_value c"
  by (simp add: read_nat_def)

lemma read_nat_fixed_digits: "read_nat (map digit_char (fixed_digits d n)) = n mod 10 ^ d"
proof (induction d arbitrary: n)
  case 0
  show ?case by (simp add: read_nat_Nil)
next
  case (Suc d)
  have "n mod (10 * 10 ^ d) = 10 * (n div 10 mod 10 ^ d) + n mod 10"
    by (rule mod_mult2_eq)
  with Suc [of "n div 10"] show ?case
    by (simp add: read_nat_snoc digit_value_digit_char)
qed



lemma dropWhile_not_dot:
  "CHR ''.'' \<notin> set pre \<Longrightarrow> dropWhile (\<lambda>c. c \<noteq> CHR ''.'') pre = []"
  by (induction pre) auto

lemma fraction_part_no_dot: "CHR ''.'' \<notin> set pre \<Longrightarrow> fraction_part pre = []"
  by (simp add: fraction_part_def dropWhile_not_dot)

lemma fraction_part_after_dot:
  "CHR ''.'' \<notin> set pre \<Longrightarrow> fraction_part (pre @ ''.'' @ F) = F"
  by (simp add: fraction_part_def dropWhile_append dropWhile_not_dot)









subsection \<open>formatDecimal\<close>



lemma fraction_digit_range_same:
  "fraction_digit_range (Some \<lparr>minimumFractionDigits = Some d, maximumFractionDigits = Some d\<rparr>) =
     (if 100 < d then Inl (range_error ''minimumFractionDigits'') else Inr (d, d))"
  by (simp add: fraction_digit_range_def)


lemma grouped_digits_chars:
  assumes "supported_locale L"
  shows "list_all (\<lambda>c. is_digit c \<or> c = CHR '','') (concat (group_digits L (map (digit L) ds)))"
proof -
  have f: "digit L = latn" "group_sep L = '',''"
    using assms by (simp_all add: supported_locale_fields)
  have "\<forall>g \<in> set (group_digits L (map latn ds)). list_all (\<lambda>c. is_digit c \<or> c = CHR '','') g"
  proof
    fix g assume "g \<in> set (group_digits L (map latn ds))"
    with set_group_digits [of L "map latn ds"] have "g = '','' \<or> g \<in> set (map latn ds)"
      by (auto simp: f)
    then show "list_all (\<lambda>c. is_digit c \<or> c = CHR '','') g"
      by (auto simp: latn_def digit_char_is_digit)
  qed
  then show ?thesis
    by (simp add: f list_all_iff)
qed

lemma integer_part_no_dot:
  assumes "supported_locale L"
  shows "CHR ''.'' \<notin> set (concat (group_digits L (map (digit L) ds)))"
proof
  assume "CHR ''.'' \<in> set (concat (group_digits L (map (digit L) ds)))"
  with grouped_digits_chars [OF assms, of ds] have "is_digit CHR ''.'' \<or> CHR ''.'' = CHR '',''"
    by (auto simp: list_all_iff)
  then show False by (simp add: is_digit_def)
qed

lemma format_number_fixed:
  "format_number L d d x =
     ((if is_negative x then minus_sign L else []) @
       concat (group_digits L (map (digit L)
         (int_digits (round_half_expand (magnitude x) d div 10 ^ d))))) @
     (if d = 0 then []
      else decimal_sep L @
           concat (map (digit L) (fixed_digits d (round_half_expand (magnitude x) d))))"
proof -
  have "(fixed_digits d (round_half_expand (magnitude x) d) = []) = (d = 0)"
    using length_fixed_digits [of d "round_half_expand (magnitude x) d"] by (cases d) auto
  then show ?thesis by (simp add: format_number_def Let_def)
qed

text \<open>
  C6, as the code has it. For every finite value \<open>v\<close>, every digit count \<open>d\<close> from 0 to
  100 and every supported language, \<open>formatDecimal\<close> returns a string with exactly \<open>d\<close>
  digits after the decimal point, and with no decimal point at all when \<open>d\<close> is 0. The
  digits are those of the magnitude rounded to \<open>d\<close> places, its zeros included: read as a
  number they give the rounded magnitude, scaled by \<open>10 ^ d\<close>, modulo \<open>10 ^ d\<close>.
\<close>

theorem formatDecimal_fraction_digits:
  assumes "language i \<in> set validLanguages" and "d \<le> 100"
  shows "\<exists>s. formatDecimal dflt i v (Some d) = Inr s \<and>
             length (fraction_part s) = d \<and> list_all is_digit (fraction_part s) \<and>
             (CHR ''.'' \<in> set s) = (0 < d) \<and>
             read_nat (fraction_part s) = round_half_expand (magnitude v) d mod 10 ^ d"
proof -
  define L where "L = resolve_locale dflt (getLocaleCode i)"
  define n where "n = round_half_expand (magnitude v) d"
  define pre where "pre = (if is_negative v then minus_sign L else []) @
       concat (group_digits L (map (digit L) (int_digits (n div 10 ^ d))))"
  define F where "F = map digit_char (fixed_digits d n)"
  have sup: "supported_locale L"
    using assms(1) by (simp add: L_def resolve_supported)
  then have f: "digit L = latn" "decimal_sep L = ''.''" "minus_sign L = ''-''"
    by (simp_all add: supported_locale_fields)
  have nodot: "CHR ''.'' \<notin> set pre"
    using integer_part_no_dot [OF sup, of "int_digits (n div 10 ^ d)"]
    by (simp add: pre_def f)
  have lenF: "length F = d"
    by (simp add: F_def length_fixed_digits)
  have digF: "list_all is_digit F"
    by (simp add: F_def list_all_iff digit_char_is_digit)
  have valF: "read_nat F = n mod 10 ^ d"
    by (simp add: F_def read_nat_fixed_digits)
  have res: "formatDecimal dflt i v (Some d) = Inr (pre @ (if d = 0 then [] else ''.'' @ F))"
    using assms(2)
    by (simp add: formatDecimal_def toLocaleString_def fraction_digit_range_same
        format_number_fixed L_def [symmetric] n_def [symmetric] pre_def F_def f concat_map_latn)
  show ?thesis
  proof (cases "d = 0")
    case True
    with res nodot lenF show ?thesis
      by (simp add: fraction_part_no_dot read_nat_Nil)
  next
    case False
    with res have "formatDecimal dflt i v (Some d) = Inr (pre @ ''.'' @ F)" by simp
    moreover have "fraction_part (pre @ ''.'' @ F) = F"
      using nodot by (rule fraction_part_after_dot)
    ultimately show ?thesis
      using False lenF digF valF by (simp add: n_def)
  qed
qed

text \<open>The two examples of the specification, in English: 6.5 with one digit, 6 with two.\<close>

theorem formatDecimal_fraction_digits_witness:
  "''en'' \<in> set validLanguages \<and> (2::nat) \<le> 100 \<and>
   formatDecimal en_US (i18n_in ''en'') (Num (13 / 2)) (Some 1) = Inr ''6.5'' \<and>
   formatDecimal en_US (i18n_in ''en'') (Num 6) (Some 2) = Inr ''6.00'' \<and>
   length (fraction_part ''6.00'') = 2 \<and> read_nat (fraction_part ''6.00'') = 0"
proof -
  have lang: "language (i18n_in ''en'') \<in> set validLanguages"
    by (simp add: i18n_in_def validLanguages_def)
  have one: "formatDecimal en_US (i18n_in ''en'') (Num (13 / 2)) (Some 1) = Inr ''6.5''"
    by (simp add: format_eval round_half_expand_13_2)
  have two: "formatDecimal en_US (i18n_in ''en'') (Num 6) (Some 2) = Inr ''6.00''"
    by (simp add: format_eval)
  have r: "round_half_expand (magnitude (Num 6)) 2 mod 10 ^ 2 = 0"
    by (simp add: magnitude_def round_half_expand_numeral)
  from formatDecimal_fraction_digits
    [where i = "i18n_in ''en''" and d = 2 and dflt = en_US and v = "Num 6"] lang
  obtain s where "formatDecimal en_US (i18n_in ''en'') (Num 6) (Some 2) = Inr s"
    and "length (fraction_part s) = 2"
    and "read_nat (fraction_part s) = round_half_expand (magnitude (Num 6)) 2 mod 10 ^ 2"
    by auto
  with two have "length (fraction_part ''6.00'') = 2"
    and "read_nat (fraction_part ''6.00'') = round_half_expand (magnitude (Num 6)) 2 mod 10 ^ 2"
    by simp_all
  then have "length (fraction_part ''6.00'') = 2" and "read_nat (fraction_part ''6.00'') = 0"
    by (simp_all only: r)
  with one two show ?thesis
    by (simp add: validLanguages_def)
qed

text \<open>A digit count above 100 is refused by the host: the formatter throws.\<close>

theorem formatDecimal_range_error:
  "formatDecimal en_US (i18n_in ''en'') (Num 6) (Some 101) =
     Inl (JsError ''RangeError'' ''minimumFractionDigits value is out of range.'')"
  by (simp add: format_eval)

text \<open>
  What is rounded is the decimal that prints the number: 1.005 with two digits is
  \<open>1.01\<close>. Negative zero keeps its sign. One hundred thousand is grouped by three in
  \<open>kn-IN\<close> and \<open>en-US\<close>, by three and then two in \<open>hi-IN\<close>.
\<close>

lemma round_half_expand_201_200: "round_half_expand (201 / 200) 2 = 101"
  using round_half_expand_quotient [of 200 201 2] by simp

lemma formatDecimal_rounds_printed_decimal:
  "formatDecimal en_US (i18n_in ''en'') (Num (201 / 200)) (Some 2) = Inr ''1.01''"
  by (simp add: format_eval round_half_expand_201_200)

lemma formatDecimal_negative_zero:
  "formatDecimal en_US (i18n_in ''en'') NegZero (Some 1) = Inr ''-0.0''"
  by (simp add: format_eval)

lemma formatDecimal_groups:
  "formatDecimal dflt (i18n_in ''kn'') (Num 100000) (Some 0) = Inr ''100,000''"
  "formatDecimal dflt (i18n_in ''hi'') (Num 100000) (Some 0) = Inr ''1,00,000''"
  "formatDecimal dflt (i18n_in ''en'') (Num 100000) (Some 0) = Inr ''100,000''"
  by (simp_all add: format_eval)

subsection \<open>formatNumberWithPercent\<close>












subsection \<open>Locale resolution and the language at startup\<close>

lemma getLocaleCode_supported:
  "getLocaleCode (i18n_in ''en'') = LocaleTag ''en-US''"
  "getLocaleCode (i18n_in ''hi'') = LocaleTag ''hi-IN''"
  "getLocaleCode (i18n_in ''kn'') = LocaleTag ''kn-IN''"
  by (simp_all add: getLocaleCode_def localeMap_def i18n_in_def)

lemma getLocaleCode_fallback:
  assumes "language i \<notin> set validLanguages" and "language i \<notin> set object_prototype_members"
  shows "getLocaleCode i = LocaleTag ''en-US''"
  using assms by (simp add: getLocaleCode_def localeMap_def validLanguages_def)

lemma initialLanguage_valid: "initialLanguage env \<in> set validLanguages"
  by (simp add: initialLanguage_def Let_def validLanguages_def)

lemma initialLanguage_unrecognized:
  "getSavedLanguage env \<notin> set validLanguages \<Longrightarrow> initialLanguage env = ''en''"
  by (simp add: initialLanguage_def Let_def)

lemma initialLanguage_absent:
  "items env ''i18nextLng'' = None \<Longrightarrow> initialLanguage env = ''en''"
  by (simp add: initialLanguage_def getSavedLanguage_def Let_def)

text \<open>
  C8 at the language tag \<open>constructor\<close>, which is outside the supported set. The lookup
  \<open>localeMap[lang]\<close> finds the member that every object inherits, the value is truthy, and
  \<open>getLocaleCode\<close> returns it instead of \<open>en-US\<close>; \<open>toLocaleString\<close> then formats with the
  host's own default locale, whatever that is. For a tag that names no inherited member the
  fallback works (\<open>getLocaleCode_fallback\<close>), and the language chosen at startup is always
  one of the three, \<open>en\<close> when the stored value is absent or unrecognized
  (\<open>initialLanguage_valid\<close>, \<open>initialLanguage_absent\<close>, \<open>initialLanguage_unrecognized\<close>).
\<close>

theorem getLocaleCode_inherited_member:
  "''constructor'' \<notin> set validLanguages \<and>
   getLocaleCode (i18n_in ''constructor'') = PrototypeMember ''constructor'' \<and>
   getLocaleCode (i18n_in ''constructor'') \<noteq> LocaleTag ''en-US'' \<and>
   resolve_locale dflt (getLocaleCode (i18n_in ''constructor'')) = dflt"
  by (simp add: getLocaleCode_def localeMap_def i18n_in_def validLanguages_def
      object_prototype_members_def resolve_locale_def)

subsection \<open>Month labels\<close>

lemma i18n_t_missing: "i18n_t (i18n_in lng) key = key"
  by (simp add: i18n_t_def i18n_in_def List.map_filter_simps)

lemma getMonthAbbr_string:
  assumes "monthIndex < 12"
  shows "\<exists>s. getMonthAbbr i monthIndex = Some s \<and> s \<noteq> []"
proof -
  let ?keys = "[''jan'', ''feb'', ''mar'', ''apr'', ''may'', ''jun'',
                ''jul'', ''aug'', ''sep'', ''oct'', ''nov'', ''dec'']"
  have "?keys ! monthIndex \<in> set ?keys"
    using assms by (intro nth_mem) simp
  then have "?keys ! monthIndex \<noteq> []" by auto
  then show ?thesis
    using assms by (simp add: getMonthAbbr_def Let_def)
qed

lemma getMonthName_string:
  assumes "monthIndex < 12"
  shows "\<exists>s. getMonthName i monthIndex = Some s \<and> s \<noteq> []"
proof -
  let ?keys = "[''january'', ''february'', ''march'', ''april'', ''mayFull'', ''june'',
                ''july'', ''august'', ''september'', ''october'', ''november'', ''december'']"
  have "?keys ! monthIndex \<in> set ?keys"
    using assms by (intro nth_mem) simp
  then have "?keys ! monthIndex \<noteq> []" by auto
  then show ?thesis
    using assms by (simp add: getMonthName_def Let_def)
qed

lemma getMonthAbbr_translated:
  "getMonthAbbr \<lparr>language = ''en'', resources = january_only\<rparr> 0 = Some ''Jan''"
  by (simp add: getMonthAbbr_def i18n_t_def january_only_def List.map_filter_simps
      language_part_def)

text \<open>
  C9 where no language has the label. \<open>i18n.t\<close> answers a key it cannot find with the key
  itself, here \<open>months.jan\<close> and \<open>months.january\<close>, a non-empty string, so the alternative
  \<open>|| monthKeys[monthIndex]\<close> is not taken and the helpers return the full key. The month
  key alone comes back only for a label that is present and empty. For every index from
  0 to 11 the helpers do return a non-empty string (\<open>getMonthAbbr_string\<close>,
  \<open>getMonthName_string\<close>).
\<close>

theorem getMonthAbbr_missing_translation:
  "getMonthAbbr (i18n_in ''en'') 0 = Some ''months.jan'' \<and>
   getMonthName (i18n_in ''en'') 0 = Some ''months.january'' \<and>
   getMonthAbbr \<lparr>language = ''en'', resources = (\<lambda>l. [''months.jan'' \<mapsto> []])\<rparr> 0 = Some ''jan''"
proof (intro conjI)
  show "getMonthAbbr (i18n_in ''en'') 0 = Some ''months.jan''"
    by (simp add: getMonthAbbr_def Let_def i18n_t_missing)
  show "getMonthName (i18n_in ''en'') 0 = Some ''months.january''"
    by (simp add: getMonthName_def Let_def i18n_t_missing)
  show "getMonthAbbr \<lparr>language = ''en'', resources = (\<lambda>l. [''months.jan'' \<mapsto> []])\<rparr> 0
          = Some ''jan''"
    by (simp add: getMonthAbbr_def Let_def i18n_t_def List.map_filter_simps language_part_def)
qed

subsection \<open>Saving and restoring the language\<close>




end
